theory Spec2Isabelle
  imports Main
begin

section \<open>Values passed through the kernel\<close>

text \<open>
  The kernel of \<^verbatim>\<open>ReferencePlumedKernels.cpp\<close> moves C++ \<^verbatim>\<open>double\<close> values
  around (masses, charges, the time step) and computes with one of them
  (\<^verbatim>\<open>kT = temperature * BOLTZ\<close>, then \<^verbatim>\<open>kT >= 0.0\<close>). A \<^verbatim>\<open>double\<close> is an
  IEEE 754 binary64 value: a signed finite value \<open>(-1)^s * m * 2^e\<close>, a signed
  infinity, or a NaN. The sign of a zero is kept, as the hardware keeps it.
\<close>

datatype double = Finite bool nat int | Infinity bool | NaN

text \<open>Number of binary digits of a natural number.\<close>

fun bit_length :: "nat \<Rightarrow> nat" where
  "bit_length n = (if n = 0 then 0 else Suc (bit_length (n div 2)))"

declare bit_length.simps [simp del]

text \<open>
  Rounding of the exact value \<open>(-1)^s * m * 2^e\<close> to binary64, to nearest with ties to
  even: 53 significant bits, least exponent \<open>-1074\<close> (gradual underflow), overflow to
  infinity from \<open>2^1024\<close> on.
\<close>

definition round_double :: "bool \<Rightarrow> nat \<Rightarrow> int \<Rightarrow> double" where
  "round_double s m e =
     (if m = 0 then Finite s 0 0
      else
        let e' = max (e + int (bit_length m) - 53) (- 1074)
        in if e' \<le> e
           then (if e + int (bit_length m) > 1024 then Infinity s else Finite s m e)
           else
             let k = nat (e' - e);
                 q = m div 2 ^ k;
                 r = m mod 2 ^ k;
                 q' = (if 2 * r > 2 ^ k \<or> (2 * r = 2 ^ k \<and> odd q) then q + 1 else q)
             in if int (bit_length q') + e' > 1024 then Infinity s else Finite s q' e')"

text \<open>The product \<^verbatim>\<open>x * y\<close> of two doubles.\<close>

fun dmul :: "double \<Rightarrow> double \<Rightarrow> double" where
  "dmul NaN y = NaN"
| "dmul x NaN = NaN"
| "dmul (Infinity s) (Infinity t) = Infinity (s \<noteq> t)"
| "dmul (Infinity s) (Finite t n f) = (if n = 0 then NaN else Infinity (s \<noteq> t))"
| "dmul (Finite s m e) (Infinity t) = (if m = 0 then NaN else Infinity (s \<noteq> t))"
| "dmul (Finite s m e) (Finite t n f) = round_double (s \<noteq> t) (m * n) (e + f)"

text \<open>
  The comparison \<^verbatim>\<open>x >= 0.0\<close>: false on a NaN, true on both zeros, otherwise decided
  by the sign.
\<close>

fun ge_zero :: "double \<Rightarrow> bool" where
  "ge_zero NaN = False"
| "ge_zero (Infinity s) = (\<not> s)"
| "ge_zero (Finite s m e) = (\<not> s \<or> m = 0)"

text \<open>The comparison \<^verbatim>\<open>x < 0.0\<close>.\<close>

fun lt_zero :: "double \<Rightarrow> bool" where
  "lt_zero NaN = False"
| "lt_zero (Infinity s) = s"
| "lt_zero (Finite s m e) = (s \<and> m \<noteq> 0)"

text \<open>The literals \<^verbatim>\<open>0.0\<close> and \<^verbatim>\<open>1.0\<close>.\<close>

definition d_zero :: double where
  "d_zero = Finite False 0 0"

definition d_one :: double where
  "d_one = Finite False 1 0"

type_synonym RealVec = "double \<times> double \<times> double"

type_synonym MPI_Comm = nat

type_synonym FILE_ptr = nat

section \<open>The force descriptor and the simulated system\<close>

text \<open>
  \<^verbatim>\<open>PlumedForce\<close> (PlumedForce.h) is a bag of configuration values; the kernel reads it
  through its getters only, so the record has one field per getter.
\<close>

record PlumedForce =
  getScript :: string
  getIntracom :: MPI_Comm
  getIntercom :: MPI_Comm
  getTemperature :: double
  getMasses :: "double list"
  getLogStream :: FILE_ptr
  getRestart :: bool

text \<open>
  \<^verbatim>\<open>PlumedForce::usesPeriodicBoundaryConditions\<close> (PlumedForce.h, lines 83 to 85):
  the body is \<^verbatim>\<open>return false;\<close>.
\<close>

definition usesPeriodicBoundaryConditions :: "PlumedForce \<Rightarrow> bool" where
  "usesPeriodicBoundaryConditions force = False"

text \<open>
  What the kernel asks of the \<^verbatim>\<open>System\<close>: the particles with their masses, the
  forces, of which only a \<^verbatim>\<open>NonbondedForce\<close> is looked into (for the per-particle
  charges it holds), and the answer of \<^verbatim>\<open>System::usesPeriodicBoundaryConditions\<close>.
\<close>

datatype Force = NonbondedForce "double list" | OtherForce

record System =
  particleMasses :: "double list"
  getForces :: "Force list"
  System_usesPeriodicBoundaryConditions :: bool

definition getNumParticles :: "System \<Rightarrow> nat" where
  "getNumParticles system = length (particleMasses system)"

definition getParticleMass :: "System \<Rightarrow> nat \<Rightarrow> double" where
  "getParticleMass system i = particleMasses system ! i"

section \<open>Calls leaving the kernel\<close>

text \<open>
  Every effect of the kernel on the outside is a call into PLUMED or MPI. The model
  records them in the order they are made: \<open>PlumedCreate\<close> is \<^verbatim>\<open>plumed_create()\<close>,
  \<open>MPI_Init\<close> is \<^verbatim>\<open>MPI_Init(NULL, NULL)\<close>, and every other constructor is
  \<^verbatim>\<open>plumed_cmd(plumedmain, "<name>", payload)\<close> with the command's name capitalised
  and the data its payload pointer refers to.
\<close>

datatype call =
    PlumedCreate
  | MPI_Init
  | GREX_setMPIIntercomm MPI_Comm
  | GREX_setMPIIntracomm MPI_Comm
  | GREX_init
  | SetMPIComm MPI_Comm
  | GetApiVersion
  | SetRealPrecision int
  | SetMDEnergyUnits double
  | SetMDLengthUnits double
  | SetMDTimeUnits double
  | SetMDEngine string
  | SetLog FILE_ptr
  | SetNatoms nat
  | SetTimestep double
  | SetKbT double
  | SetRestart int
  | Init
  | ReadInputLines string
  | ReadInputLine string
  | SetStep int
  | SetMasses "double list"
  | SetCharges "double list"
  | SetPositions "RealVec list"
  | SetForces "RealVec list"
  | SetBox "RealVec list"
  | SetVirial
  | PrepareCalc
  | PerformCalcNoUpdate
  | Update
  | GetBias

datatype error = OpenMMException string

section \<open>The kernel object\<close>

text \<open>
  The data members of \<^verbatim>\<open>ReferenceCalcPlumedForceKernel\<close> that the two methods read
  or write, apart from the interpreter handle \<^verbatim>\<open>plumedmain\<close>, whose use is recorded as
  the calls made through it. \<^verbatim>\<open>lastStepIndex\<close> and the step are C \<^verbatim>\<open>int\<close>s that are
  only assigned and compared for equality, never computed with, so they are modelled
  as integers.
\<close>

record Kernel =
  hasInitialized :: bool
  lastStepIndex :: int
  usesPeriodic :: bool
  masses :: "double list"
  charges :: "double list"

text \<open>
  The constructor (line 63) sets \<^verbatim>\<open>hasInitialized(false)\<close> and \<^verbatim>\<open>lastStepIndex(0)\<close>;
  the two vectors start empty; \<^verbatim>\<open>usesPeriodic\<close> is left uninitialised, so its first
  value is a parameter here.
\<close>

definition ReferenceCalcPlumedForceKernel :: "bool \<Rightarrow> Kernel" where
  "ReferenceCalcPlumedForceKernel indeterminate =
     \<lparr>hasInitialized = False, lastStepIndex = 0, usesPeriodic = indeterminate,
      masses = [], charges = []\<rparr>"

section \<open>initialize\<close>

text \<open>
  What \<^verbatim>\<open>initialize\<close> learns from outside the system and the descriptor: whether MPI
  is already initialised, the rank in the intra communicator, the API version PLUMED
  reports, the integrator's step size, and the constant \<^verbatim>\<open>BOLTZ\<close> of OpenMM's
  \<^verbatim>\<open>SimTKOpenMMRealType.h\<close>, which is not part of this repository.
\<close>

record Environment =
  done_already :: bool
  intra_comm_rank :: int
  apiVersion :: int
  getStepSize :: double
  BOLTZ :: double

text \<open>
  \<^verbatim>\<open>c_str()\<close> hands out a NUL-terminated character array: the reader of the pointer
  (PLUMED, \<^verbatim>\<open>strcpy\<close>) sees the characters before the first NUL.
\<close>

definition c_str :: "string \<Rightarrow> string" where
  "c_str s = takeWhile (\<lambda>c. c \<noteq> CHR 0x00) s"

text \<open>The delimiter set \<^verbatim>\<open>"\r\n"\<close> of the two \<^verbatim>\<open>strtok\<close> calls.\<close>

definition is_delim :: "char \<Rightarrow> bool" where
  "is_delim c = (c = CHR 0x0D \<or> c = CHR 0x0A)"

text \<open>
  The loop of lines 118 to 122: \<^verbatim>\<open>strtok\<close> skips the delimiters in front, returns
  \<^verbatim>\<open>NULL\<close> when nothing is left, and otherwise returns the characters up to the next
  delimiter, which it overwrites, resuming behind it on the next call. The result is
  the list of lines handed to \<^verbatim>\<open>readInputLine\<close>, in order.
\<close>

function strtok_lines :: "string \<Rightarrow> string list" where
  "strtok_lines s =
     (let t = dropWhile is_delim s
      in if t = [] then []
         else takeWhile (\<lambda>c. \<not> is_delim c) t
              # strtok_lines (drop 1 (dropWhile (\<lambda>c. \<not> is_delim c) t)))"
  by pat_completeness auto
termination
proof (relation "measure length")
  show "wf (measure length)" by simp
next
  fix s t :: string
  assume t: "t = dropWhile is_delim s" and ne: "t \<noteq> []"
  from ne obtain x t' where xt: "t = x # t'" by (cases t) auto
  have "dropWhile is_delim s \<noteq> []" using ne t by simp
  then have "\<not> is_delim (hd (dropWhile is_delim s))"
    by (rule hd_dropWhile)
  then have nd: "\<not> is_delim x" using t xt by (metis list.sel(1))
  have "length (dropWhile (\<lambda>c. \<not> is_delim c) t') \<le> length t'"
    by (rule length_dropWhile_le)
  moreover have "length t \<le> length s"
    unfolding t by (rule length_dropWhile_le)
  ultimately show "(drop 1 (dropWhile (\<lambda>c. \<not> is_delim c) t), s) \<in> measure length"
    using nd xt by simp
qed

declare strtok_lines.simps [simp del]

text \<open>\<^verbatim>\<open>std::vector<double>::resize(n)\<close>: cut to \<open>n\<close> elements or fill up with \<^verbatim>\<open>0.0\<close>.\<close>

definition resize :: "nat \<Rightarrow> double list \<Rightarrow> double list" where
  "resize n xs = take n xs @ replicate (n - length xs) d_zero"

text \<open>
  The inner loop of lines 145 and 146 over the particle indices.
  \<^verbatim>\<open>NonbondedForce::getParticleParameters\<close> is OpenMM's; it checks the index against
  the particles the force holds and throws when it is out of range.
\<close>

fun getParticleParameters_loop ::
  "double list \<Rightarrow> nat list \<Rightarrow> double list \<Rightarrow> (error + unit) \<times> double list" where
  "getParticleParameters_loop qs [] cs = (Inr (), cs)"
| "getParticleParameters_loop qs (i # is) cs =
     (if i < length qs then getParticleParameters_loop qs is (cs[i := qs ! i])
      else (Inl (OpenMMException ''Index out of range''), cs))"

text \<open>The outer loop of lines 140 to 148 over the forces of the system.\<close>

fun getCharges_loop ::
  "nat \<Rightarrow> Force list \<Rightarrow> double list \<Rightarrow> (error + unit) \<times> double list" where
  "getCharges_loop numParticles [] cs = (Inr (), cs)"
| "getCharges_loop numParticles (NonbondedForce qs # fs) cs =
     (case getParticleParameters_loop qs [0..<numParticles] (resize numParticles cs) of
        (Inr u, cs') \<Rightarrow> getCharges_loop numParticles fs cs'
      | (Inl e, cs') \<Rightarrow> (Inl e, cs'))"
| "getCharges_loop numParticles (OtherForce # fs) cs = getCharges_loop numParticles fs cs"

text \<open>Lines 73 to 89: creation of the interpreter and the MPI set-up, up to the version query.\<close>

definition setup_calls :: "Environment \<Rightarrow> PlumedForce \<Rightarrow> call list" where
  "setup_calls env force =
     [PlumedCreate]
     @ (if \<not> done_already env then [MPI_Init] else [])
     @ (if intra_comm_rank env = 0 then [GREX_setMPIIntercomm (getIntercom force)] else [])
     @ [GREX_setMPIIntracomm (getIntracom force), GREX_init, SetMPIComm (getIntracom force),
        GetApiVersion]"

text \<open>Lines 92 to 109: the static parameters, with \<^verbatim>\<open>setKbT\<close> under its guard.\<close>

definition parameter_calls :: "Environment \<Rightarrow> System \<Rightarrow> PlumedForce \<Rightarrow> call list" where
  "parameter_calls env system force =
     (let kT = dmul (getTemperature force) (BOLTZ env)
      in [SetRealPrecision 8, SetMDEnergyUnits d_one, SetMDLengthUnits d_one,
          SetMDTimeUnits d_one, SetMDEngine ''OpenMM'', SetLog (getLogStream force),
          SetNatoms (getNumParticles system), SetTimestep (getStepSize env)]
         @ (if ge_zero kT then [SetKbT kT] else [])
         @ [SetRestart (if getRestart force then 1 else 0), Init])"

text \<open>Lines 110 to 123: the script, as one block or line by line.\<close>

definition script_calls :: "Environment \<Rightarrow> PlumedForce \<Rightarrow> call list" where
  "script_calls env force =
     (if apiVersion env > 7 then [ReadInputLines (c_str (getScript force))]
      else map ReadInputLine (strtok_lines (c_str (getScript force))))"

text \<open>
  \<^verbatim>\<open>initialize\<close> (lines 71 to 149). The result is the calls made, in order, the outcome
  (\<open>Inl\<close> for a thrown exception) and the kernel object as the method leaves it; an
  exception leaves the members written so far in place.
\<close>

definition initialize ::
  "Environment \<Rightarrow> System \<Rightarrow> PlumedForce \<Rightarrow> Kernel \<Rightarrow> call list \<times> (error + unit) \<times> Kernel" where
  "initialize env system force k =
     (let k1 = k\<lparr>hasInitialized := True\<rparr>;
          c1 = setup_calls env force
      in if apiVersion env < 4
         then (c1, Inl (OpenMMException
                 ''Unsupported API version.  Upgrade PLUMED to a newer version.''), k1)
         else
           let numParticles = getNumParticles system;
               c2 = c1 @ parameter_calls env system force @ script_calls env force;
               k2 = k1\<lparr>usesPeriodic := System_usesPeriodicBoundaryConditions system,
                       masses := resize numParticles (masses k1)\<rparr>;
               plumedMasses = getMasses force
           in if length plumedMasses \<noteq> 0 \<and> length plumedMasses \<noteq> numParticles
              then (c2, Inl (OpenMMException
                      ''The number of PLUMED masses is different from the number of particles!''), k2)
              else
                let k3 = (if length plumedMasses = 0
                          then k2\<lparr>masses := map (getParticleMass system) [0..<numParticles]\<rparr>
                          else k2\<lparr>masses := plumedMasses\<rparr>)
                in case getCharges_loop numParticles (getForces system) (charges k3) of
                     (r, cs) \<Rightarrow> (c2, r, k3\<lparr>charges := cs\<rparr>))"

section \<open>execute\<close>

text \<open>
  What \<^verbatim>\<open>execute\<close> reads from the context's platform data, and the energy PLUMED
  writes in answer to \<^verbatim>\<open>getBias\<close>.
\<close>

record ContextImpl =
  stepCount :: int
  positions :: "RealVec list"
  forces :: "RealVec list"
  periodicBoxVectors :: "RealVec list"
  bias :: double

text \<open>
  \<^verbatim>\<open>execute\<close> (lines 151 to 182): the calls made, the energy returned and the kernel
  object afterwards. The bias forces are added by PLUMED itself to the buffer behind
  \<^verbatim>\<open>setForces\<close>; the kernel does not touch them.
\<close>

definition execute :: "ContextImpl \<Rightarrow> Kernel \<Rightarrow> call list \<times> double \<times> Kernel" where
  "execute context k =
     (let step = stepCount context;
          c = [SetStep step, SetMasses (masses k)]
              @ (if length (charges k) > 0 then [SetCharges (charges k)] else [])
              @ [SetPositions (positions context), SetForces (forces context)]
              @ (if usesPeriodic k then [SetBox (periodicBoxVectors context)] else [])
              @ [SetVirial, PrepareCalc, PerformCalcNoUpdate]
      in if step \<noteq> lastStepIndex k
         then (c @ [Update, GetBias], bias context, k\<lparr>lastStepIndex := step\<rparr>)
         else (c @ [GetBias], bias context, k))"

text \<open>
  A run of the kernel: \<^verbatim>\<open>execute\<close> called once for each context state of a list, in
  order. The result is the calls of each invocation, one list per invocation, and the
  kernel object at the end.
\<close>

fun execute_all :: "Kernel \<Rightarrow> ContextImpl list \<Rightarrow> call list list \<times> Kernel" where
  "execute_all k [] = ([], k)"
| "execute_all k (context # rest) =
     (case execute context k of
        (c, energy, k') \<Rightarrow> (case execute_all k' rest of (cs, k'') \<Rightarrow> (c # cs, k'')))"

text \<open>How often a call occurs among the calls made.\<close>

definition issued :: "call \<Rightarrow> call list \<Rightarrow> nat" where
  "issued x cs = length (filter (\<lambda>c. c = x) cs)"

section \<open>Notions used to state the properties\<close>

text \<open>
  For a list of step indices and the index recorded before the first of them: 1 where
  an index differs from the one before it, 0 where it repeats it.
\<close>

fun changes :: "int \<Rightarrow> int list \<Rightarrow> nat list" where
  "changes prev [] = []"
| "changes prev (s # ss) = (if s \<noteq> prev then 1 else 0) # changes s ss"

text \<open>The calls that hand script text to the interpreter.\<close>

fun is_script_call :: "call \<Rightarrow> bool" where
  "is_script_call (ReadInputLines text) = True"
| "is_script_call (ReadInputLine line) = True"
| "is_script_call other = False"

fun is_setCharges :: "call \<Rightarrow> bool" where
  "is_setCharges (SetCharges q) = True"
| "is_setCharges other = False"

fun is_setBox :: "call \<Rightarrow> bool" where
  "is_setBox (SetBox b) = True"
| "is_setBox other = False"

fun is_setKbT :: "call \<Rightarrow> bool" where
  "is_setKbT (SetKbT x) = True"
| "is_setKbT other = False"

fun is_NonbondedForce :: "Force \<Rightarrow> bool" where
  "is_NonbondedForce (NonbondedForce qs) = True"
| "is_NonbondedForce OtherForce = False"

text \<open>
  The specification's reading of the line-by-line submission: the text is cut at every
  newline and carriage-return character; \<open>split_lines\<close> gives the pieces between the
  cuts, in order, empty pieces included.
\<close>

fun split_lines :: "string \<Rightarrow> string list" where
  "split_lines [] = [[]]"
| "split_lines (c # cs) =
     (if is_delim c then [] # split_lines cs
      else (case split_lines cs of
              [] \<Rightarrow> [[c]]
            | l # ls \<Rightarrow> (c # l) # ls))"

section \<open>Concrete inputs\<close>

text \<open>
  A system of two particles with masses 1.0 and 2.0 and no nonbonded force, not
  periodic; the same system with a nonbonded force carrying the charges 1.0 and -1.0,
  periodic.
\<close>

definition example_system :: System where
  "example_system =
     \<lparr>particleMasses = [Finite False 1 0, Finite False 2 0],
      getForces = [OtherForce],
      System_usesPeriodicBoundaryConditions = False\<rparr>"

definition example_periodic_system :: System where
  "example_periodic_system =
     \<lparr>particleMasses = [Finite False 1 0, Finite False 2 0],
      getForces = [OtherForce, NonbondedForce [Finite False 1 0, Finite True 1 0]],
      System_usesPeriodicBoundaryConditions = True\<rparr>"

text \<open>
  A descriptor as the constructor and the defaults of the setters leave it: a script of
  two lines, temperature -1.0, no mass overrides, no restart.
\<close>

definition example_force :: PlumedForce where
  "example_force =
     \<lparr>getScript = ''d: DISTANCE ATOMS=1,2'' @ [CHR 0x0A] @ ''PRINT ARG=d'',
      getIntracom = 1,
      getIntercom = 2,
      getTemperature = Finite True 1 0,
      getMasses = [],
      getLogStream = 1,
      getRestart = False\<rparr>"

text \<open>
  An environment: MPI not yet initialised, rank 0, API version 8, a step of 0.002
  (\<open>4611686018427388 * 2^-61\<close>), and for \<^verbatim>\<open>BOLTZ\<close> the double nearest to
  0.00831446261815324 (\<open>4792961375859309 * 2^-59\<close>).
\<close>

definition example_env :: Environment where
  "example_env =
     \<lparr>done_already = False,
      intra_comm_rank = 0,
      apiVersion = 8,
      getStepSize = Finite False 4611686018427388 (- 61),
      BOLTZ = Finite False 4792961375859309 (- 59)\<rparr>"

text \<open>The platform data at a given step: two particles at rest, a unit box.\<close>

definition example_context :: "int \<Rightarrow> ContextImpl" where
  "example_context step =
     \<lparr>stepCount = step,
      positions = [(d_zero, d_zero, d_zero), (d_one, d_zero, d_zero)],
      forces = [(d_zero, d_zero, d_zero), (d_zero, d_zero, d_zero)],
      periodicBoxVectors = [(d_one, d_zero, d_zero), (d_zero, d_one, d_zero), (d_zero, d_zero, d_one)],
      bias = d_zero\<rparr>"

section \<open>Counting calls\<close>

lemma issued_Nil: "issued x [] = 0"
  by (simp add: issued_def)

lemma issued_Cons: "issued x (c # cs) = (if c = x then 1 else 0) + issued x cs"
  by (simp add: issued_def)

lemma issued_append: "issued x (a @ b) = issued x a + issued x b"
  by (simp add: issued_def)

lemma issued_concat: "issued x (concat cs) = sum_list (map (issued x) cs)"
  by (induction cs) (simp_all add: issued_Nil issued_append)

section \<open>One call of execute\<close>

lemma execute_Update:
  "issued Update (fst (execute context k)) =
     (if stepCount context \<noteq> lastStepIndex k then 1 else 0)"
  by (simp add: execute_def Let_def issued_append issued_Cons issued_Nil)

lemma execute_lastStepIndex:
  "lastStepIndex (snd (snd (execute context k))) = stepCount context"
  by (simp add: execute_def Let_def)

lemma execute_charges: "charges (snd (snd (execute context k))) = charges k"
  by (simp add: execute_def Let_def)

lemma execute_usesPeriodic: "usesPeriodic (snd (snd (execute context k))) = usesPeriodic k"
  by (simp add: execute_def Let_def)

lemma execute_all_Cons:
  "execute_all k (context # rest) =
     (fst (execute context k) # fst (execute_all (snd (snd (execute context k))) rest),
      snd (execute_all (snd (snd (execute context k))) rest))"
  by (simp split: prod.splits)

declare execute_all.simps(2) [simp del]

text \<open>
  The history-advancing \<^verbatim>\<open>update\<close> over a run: an invocation issues it once when its
  step index differs from the one recorded, and not at all otherwise.
\<close>

lemma execute_all_Update:
  "map (issued Update) (fst (execute_all k contexts)) =
     changes (lastStepIndex k) (map stepCount contexts)"
proof (induction contexts arbitrary: k)
  case Nil
  show ?case by simp
next
  case (Cons ctx rest)
  show ?case
    unfolding execute_all_Cons
    by (simp add: Cons.IH execute_Update execute_lastStepIndex)
qed

lemma changes_same: "\<forall>x \<in> set ss. x = s \<Longrightarrow> changes s ss = replicate (length ss) 0"
  by (induction ss) auto

lemma changes_increasing:
  "sorted_wrt (<) (s # ss) \<Longrightarrow> changes s ss = replicate (length ss) 1"
  by (induction ss arbitrary: s) auto

lemma initialize_lastStepIndex:
  "lastStepIndex (snd (snd (initialize env system force k))) = lastStepIndex k"
  by (simp add: initialize_def Let_def split: prod.splits)

section \<open>The history update\<close>

text \<open>
  C1, as the specification states it: a run of \<^verbatim>\<open>execute\<close> with strictly increasing
  step indices issues \<^verbatim>\<open>update\<close> once per index, so as often as there are calls. On
  the code this fails for a run that starts at step 0: the constructor records 0 as
  the last step index, and the first call sees nothing new. Here a kernel is
  constructed, initialised and executed once at step 0, and \<^verbatim>\<open>update\<close> is not issued.
\<close>

theorem update_once_per_step_counterexample:
  "sorted_wrt (<) (map stepCount [example_context 0]) \<and>
   issued Update (concat (fst (execute_all
      (snd (snd (initialize example_env example_system example_force
                   (ReferenceCalcPlumedForceKernel False))))
      [example_context 0]))) \<noteq> length [example_context 0] \<and>
   issued Update (concat (fst (execute_all
      (snd (snd (initialize example_env example_system example_force
                   (ReferenceCalcPlumedForceKernel False))))
      [example_context 0]))) = 0"
  by (simp add: execute_all_Cons execute_Update initialize_lastStepIndex issued_append
      ReferenceCalcPlumedForceKernel_def example_context_def issued_Nil)

text \<open>
  C1, amended: on a kernel that was constructed and initialised, a run of \<^verbatim>\<open>execute\<close>
  with strictly increasing step indices issues \<^verbatim>\<open>update\<close> exactly once in every call,
  except that the first call issues none when its step index is 0, the value the
  constructor gives \<^verbatim>\<open>lastStepIndex\<close>.
\<close>

theorem update_once_per_increasing_step:
  assumes "sorted_wrt (<) (map stepCount contexts)"
  shows "map (issued Update) (fst (execute_all
            (snd (snd (initialize env system force (ReferenceCalcPlumedForceKernel u))))
            contexts)) =
         (case contexts of
            [] \<Rightarrow> []
          | first # rest \<Rightarrow> (if stepCount first = 0 then 0 else 1) # replicate (length rest) 1)"
proof (cases contexts)
  case Nil
  then show ?thesis by simp
next
  case (Cons first rest)
  have "sorted_wrt (<) (stepCount first # map stepCount rest)"
    using assms Cons by simp
  then have "changes (stepCount first) (map stepCount rest) = replicate (length rest) 1"
    using changes_increasing [of "stepCount first" "map stepCount rest"] by simp
  then show ?thesis
    using Cons
    by (simp add: execute_all_Update initialize_lastStepIndex ReferenceCalcPlumedForceKernel_def)
qed

theorem update_once_per_increasing_step_witness:
  "sorted_wrt (<) (map stepCount [example_context 3, example_context 4, example_context 7]) \<and>
   map (issued Update) (fst (execute_all
      (snd (snd (initialize example_env example_system example_force
                   (ReferenceCalcPlumedForceKernel False))))
      [example_context 3, example_context 4, example_context 7])) = [1, 1, 1] \<and>
   sorted_wrt (<) (map stepCount [example_context 0, example_context 1, example_context 2]) \<and>
   map (issued Update) (fst (execute_all
      (snd (snd (initialize example_env example_system example_force
                   (ReferenceCalcPlumedForceKernel False))))
      [example_context 0, example_context 1, example_context 2])) = [0, 1, 1]"
  using update_once_per_increasing_step
    [of "[example_context 3, example_context 4, example_context 7]"
        example_env example_system example_force False]
    update_once_per_increasing_step
    [of "[example_context 0, example_context 1, example_context 2]"
        example_env example_system example_force False]
  by (simp add: example_context_def)

text \<open>
  C2: however often \<^verbatim>\<open>execute\<close> is called in a row with one and the same step index,
  and whatever the kernel recorded before, \<^verbatim>\<open>update\<close> is issued at most once over all
  those calls.
\<close>

theorem update_at_most_once_for_same_step:
  assumes "\<forall>c \<in> set contexts. stepCount c = s"
  shows "issued Update (concat (fst (execute_all k contexts))) \<le> 1"
proof (cases contexts)
  case Nil
  then show ?thesis by (simp add: issued_Nil)
next
  case (Cons first rest)
  have first: "stepCount first = s" and rest: "\<forall>x \<in> set (map stepCount rest). x = s"
    using assms Cons by auto
  have "changes s (map stepCount rest) = replicate (length (map stepCount rest)) 0"
    using rest by (rule changes_same)
  then have "sum_list (changes (lastStepIndex k) (map stepCount contexts)) \<le> 1"
    using Cons first by (simp add: sum_list_replicate)
  then show ?thesis
    by (simp add: issued_concat execute_all_Update)
qed

theorem update_at_most_once_for_same_step_witness:
  "map stepCount [example_context 5, example_context 5, example_context 5] = [5, 5, 5] \<and>
   issued Update (concat (fst (execute_all (ReferenceCalcPlumedForceKernel False)
      [example_context 5, example_context 5, example_context 5]))) \<le> 1"
  using update_at_most_once_for_same_step
    [of "[example_context 5, example_context 5, example_context 5]" 5
        "ReferenceCalcPlumedForceKernel False"]
  by (simp add: example_context_def)

section \<open>The descriptor\<close>

text \<open>
  C10: \<^verbatim>\<open>PlumedForce::usesPeriodicBoundaryConditions\<close> answers false for every
  descriptor, whatever its script and its other settings.
\<close>

theorem PlumedForce_never_periodic: "usesPeriodicBoundaryConditions force = False"
  by (simp add: usesPeriodicBoundaryConditions_def)

section \<open>The lines of the script\<close>

text \<open>
  The tokens \<^verbatim>\<open>strtok\<close> produces are the non-empty pieces between the delimiters:
  an empty piece (two delimiters in a row, as in a CR LF line end or a blank line, or a
  delimiter at either end) gives no token.
\<close>

lemma split_lines_unfold:
  "split_lines s =
     takeWhile (\<lambda>c. \<not> is_delim c) s
     # (case dropWhile (\<lambda>c. \<not> is_delim c) s of [] \<Rightarrow> [] | d # r \<Rightarrow> split_lines r)"
  by (induction s) (auto split: list.splits)

lemma strtok_lines_Nil: "strtok_lines [] = []"
  by (simp add: strtok_lines.simps)

lemma strtok_lines_delim: "is_delim c \<Longrightarrow> strtok_lines (c # cs) = strtok_lines cs"
  by (subst strtok_lines.simps, subst (2) strtok_lines.simps) simp

lemma strtok_lines_token:
  "\<not> is_delim c \<Longrightarrow>
   strtok_lines (c # cs) =
     (c # takeWhile (\<lambda>c. \<not> is_delim c) cs)
     # strtok_lines (drop 1 (dropWhile (\<lambda>c. \<not> is_delim c) cs))"
  by (subst strtok_lines.simps) simp

lemma strtok_lines_split: "strtok_lines s = filter (\<lambda>l. l \<noteq> []) (split_lines s)"
proof (induction s rule: length_induct)
  case (1 s)
  show ?case
  proof (cases s)
    case Nil
    then show ?thesis by (simp add: strtok_lines_Nil)
  next
    case (Cons c cs)
    show ?thesis
    proof (cases "is_delim c")
      case True
      have "strtok_lines cs = filter (\<lambda>l. l \<noteq> []) (split_lines cs)"
        using 1 Cons by simp
      then show ?thesis using Cons True by (simp add: strtok_lines_delim)
    next
      case False
      let ?r = "dropWhile (\<lambda>c. \<not> is_delim c) cs"
      have len: "length (drop 1 ?r) < length s"
        using Cons length_dropWhile_le [of "\<lambda>c. \<not> is_delim c" cs] by simp
      have ih: "strtok_lines (drop 1 ?r) = filter (\<lambda>l. l \<noteq> []) (split_lines (drop 1 ?r))"
        using 1 len by blast
      have tail: "filter (\<lambda>l. l \<noteq> []) (case ?r of [] \<Rightarrow> [] | d # r \<Rightarrow> split_lines r)
                  = strtok_lines (drop 1 ?r)"
      proof (cases ?r)
        case Nil
        then show ?thesis by (simp only: list.case drop_Nil filter.simps strtok_lines_Nil)
      next
        case (Cons d r)
        have "drop 1 ?r = r" by (simp only: Cons) simp
        then show ?thesis using ih by (simp only: Cons list.case)
      qed
      have "split_lines (c # cs) =
              (c # takeWhile (\<lambda>c. \<not> is_delim c) cs)
              # (case ?r of [] \<Rightarrow> [] | d # r \<Rightarrow> split_lines r)"
        using False by (subst split_lines_unfold) simp
      then show ?thesis
        using Cons False tail by (simp add: strtok_lines_token)
    qed
  qed
qed

lemma c_str_id: "CHR 0x00 \<notin> set s \<Longrightarrow> c_str s = s"
  by (auto simp add: c_str_def)

section \<open>The steps of initialize\<close>

lemma getParticleParameters_loop_outcome:
  "fst (getParticleParameters_loop qs is cs) = Inr () \<or>
   fst (getParticleParameters_loop qs is cs) = Inl (OpenMMException ''Index out of range'')"
  by (induction "is" arbitrary: cs) auto

lemma getCharges_loop_outcome:
  "fst (getCharges_loop n fs cs) = Inr () \<or>
   fst (getCharges_loop n fs cs) = Inl (OpenMMException ''Index out of range'')"
proof (induction n fs cs rule: getCharges_loop.induct)
  case (1 n cs)
  show ?case by simp
next
  case (2 n qs fs cs)
  show ?case
    using 2 getParticleParameters_loop_outcome [of qs "[0..<n]" "resize n cs"]
    by (auto split: prod.splits sum.splits)
next
  case (3 n fs cs)
  then show ?case by simp
qed

lemma getCharges_loop_no_nonbonded:
  "\<forall>f \<in> set fs. \<not> is_NonbondedForce f \<Longrightarrow> getCharges_loop n fs cs = (Inr (), cs)"
  by (induction n fs cs rule: getCharges_loop.induct) auto

lemma initialize_old_version:
  "apiVersion env < 4 \<Longrightarrow>
   initialize env system force k =
     (setup_calls env force,
      Inl (OpenMMException ''Unsupported API version.  Upgrade PLUMED to a newer version.''),
      k\<lparr>hasInitialized := True\<rparr>)"
  by (simp add: initialize_def Let_def)

lemma initialize_calls:
  "\<not> apiVersion env < 4 \<Longrightarrow>
   fst (initialize env system force k) =
     setup_calls env force @ parameter_calls env system force @ script_calls env force"
  by (simp add: initialize_def Let_def split: prod.splits)

lemma initialize_mass_mismatch:
  "\<not> apiVersion env < 4 \<Longrightarrow> length (getMasses force) \<noteq> 0 \<Longrightarrow>
   length (getMasses force) \<noteq> getNumParticles system \<Longrightarrow>
   fst (snd (initialize env system force k)) =
     Inl (OpenMMException ''The number of PLUMED masses is different from the number of particles!'')"
  by (simp add: initialize_def Let_def)

lemma getParticleMass_all:
  "map (getParticleMass system) [0..<getNumParticles system] = particleMasses system"
proof -
  have "getParticleMass system = (!) (particleMasses system)"
    by (simp add: getParticleMass_def fun_eq_iff)
  then show ?thesis by (simp add: getNumParticles_def map_nth)
qed

lemma initialize_masses_system:
  "\<not> apiVersion env < 4 \<Longrightarrow> getMasses force = [] \<Longrightarrow>
   masses (snd (snd (initialize env system force k))) = particleMasses system"
  by (simp add: initialize_def Let_def getParticleMass_all split: prod.splits)

lemma initialize_masses_override:
  "\<not> apiVersion env < 4 \<Longrightarrow> length (getMasses force) = getNumParticles system \<Longrightarrow>
   masses (snd (snd (initialize env system force k))) = getMasses force"
  by (auto simp add: initialize_def Let_def getParticleMass_all split: prod.splits)

lemma initialize_result:
  "\<not> apiVersion env < 4 \<Longrightarrow>
   fst (snd (initialize env system force k)) =
     (if length (getMasses force) \<noteq> 0 \<and> length (getMasses force) \<noteq> getNumParticles system
      then Inl (OpenMMException
             ''The number of PLUMED masses is different from the number of particles!'')
      else fst (getCharges_loop (getNumParticles system) (getForces system) (charges k)))"
  by (simp add: initialize_def Let_def split: prod.splits)

lemma initialize_outcome:
  "\<not> apiVersion env < 4 \<Longrightarrow>
   fst (snd (initialize env system force k)) \<noteq>
     Inl (OpenMMException ''Unsupported API version.  Upgrade PLUMED to a newer version.'')"
  using getCharges_loop_outcome [of "getNumParticles system" "getForces system" "charges k"]
  by (auto simp add: initialize_result)

lemma initialize_usesPeriodic:
  "\<not> apiVersion env < 4 \<Longrightarrow>
   usesPeriodic (snd (snd (initialize env system force k))) =
     System_usesPeriodicBoundaryConditions system"
  by (simp add: initialize_def Let_def split: prod.splits)

lemma initialize_charges_no_nonbonded:
  "\<forall>f \<in> set (getForces system). \<not> is_NonbondedForce f \<Longrightarrow>
   charges (snd (snd (initialize env system force k))) = charges k"
  by (simp add: initialize_def Let_def getCharges_loop_no_nonbonded split: prod.splits)

lemma setup_calls_no_script: "filter is_script_call (setup_calls env force) = []"
  by (simp add: setup_calls_def)

lemma parameter_calls_no_script: "filter is_script_call (parameter_calls env system force) = []"
  by (simp add: parameter_calls_def Let_def)

lemma script_calls_all_script: "filter is_script_call (script_calls env force) = script_calls env force"
  by (simp add: script_calls_def filter_map o_def)

section \<open>One call of execute, continued\<close>

lemma execute_setCharges:
  "charges k = [] \<Longrightarrow> filter is_setCharges (fst (execute context k)) = []"
  by (simp add: execute_def Let_def)

lemma execute_all_setCharges:
  "charges k = [] \<Longrightarrow> filter is_setCharges (concat (fst (execute_all k contexts))) = []"
proof (induction contexts arbitrary: k)
  case Nil
  show ?case by simp
next
  case (Cons ctx rest)
  have "charges (snd (snd (execute ctx k))) = []"
    using Cons.prems by (simp add: execute_charges)
  then have "filter is_setCharges (concat (fst (execute_all (snd (snd (execute ctx k))) rest))) = []"
    by (rule Cons.IH)
  then show ?case
    using Cons.prems by (simp add: execute_all_Cons execute_setCharges)
qed

lemma execute_setBox:
  "length (filter is_setBox (fst (execute context k))) = (if usesPeriodic k then 1 else 0)"
  by (simp add: execute_def Let_def)

lemma execute_all_setBox:
  "map (\<lambda>c. length (filter is_setBox c)) (fst (execute_all k contexts)) =
     replicate (length contexts) (if usesPeriodic k then 1 else 0)"
proof (induction contexts arbitrary: k)
  case Nil
  show ?case by simp
next
  case (Cons ctx rest)
  show ?case
    by (simp add: execute_all_Cons execute_setBox Cons.IH execute_usesPeriodic)
qed

section \<open>The sign of kT\<close>

text \<open>
  Rounding keeps the sign, also when the result is a zero or an infinity. So the product
  of a temperature with a positive finite \<^verbatim>\<open>BOLTZ\<close> passes \<^verbatim>\<open>kT >= 0.0\<close> when the
  temperature is not negative, and for a negative temperature exactly when the product
  underflows to the negative zero.
\<close>

lemma round_double_sign:
  "round_double s m e = Infinity s \<or> (\<exists>q e'. round_double s m e = Finite s q e')"
  by (simp add: round_double_def Let_def)

lemma round_double_positive:
  "ge_zero (round_double False m e)"
  using round_double_sign [of False m e] by auto

lemma ge_zero_dmul:
  assumes "ge_zero T" and "0 < n"
  shows "ge_zero (dmul T (Finite False n f))"
proof (cases T)
  case (Finite s m e)
  show ?thesis
  proof (cases "m = 0")
    case True
    then show ?thesis using Finite by (simp add: round_double_def)
  next
    case False
    then have "\<not> s" using assms(1) Finite by simp
    then show ?thesis using Finite by (simp add: round_double_positive)
  qed
next
  case (Infinity s)
  then show ?thesis using assms by simp
next
  case NaN
  then show ?thesis using assms by simp
qed

lemma lt_zero_dmul:
  assumes "lt_zero T" and "0 < n"
  shows "ge_zero (dmul T (Finite False n f)) \<longleftrightarrow> (\<exists>e. dmul T (Finite False n f) = Finite True 0 e)"
proof (cases T)
  case (Finite s m e)
  then have s: "s" using assms(1) by simp
  show ?thesis
    using round_double_sign [of True "m * n" "e + f"] Finite s by auto
next
  case (Infinity s)
  then show ?thesis using assms by simp
next
  case NaN
  then show ?thesis using assms by simp
qed

lemma parameter_calls_setKbT:
  "filter is_setKbT (parameter_calls env system force) =
     (if ge_zero (dmul (getTemperature force) (BOLTZ env))
      then [SetKbT (dmul (getTemperature force) (BOLTZ env))] else [])"
  by (simp add: parameter_calls_def Let_def)

lemma setup_calls_no_setKbT: "filter is_setKbT (setup_calls env force) = []"
  by (simp add: setup_calls_def)

lemma script_calls_no_setKbT: "filter is_setKbT (script_calls env force) = []"
  by (simp add: script_calls_def filter_map o_def)

lemma initialize_setKbT:
  "\<not> apiVersion env < 4 \<Longrightarrow>
   filter is_setKbT (fst (initialize env system force k)) =
     (if ge_zero (dmul (getTemperature force) (BOLTZ env))
      then [SetKbT (dmul (getTemperature force) (BOLTZ env))] else [])"
  by (simp add: initialize_calls setup_calls_no_setKbT script_calls_no_setKbT
      parameter_calls_setKbT)

lemma bit_length_example: "bit_length 4792961375859309 = 53"
  by (simp add: bit_length.simps)

lemma dmul_underflow:
  "dmul (Finite True 1 (- 1074)) (Finite False 4792961375859309 (- 59)) = Finite True 0 (- 1074)"
  by (simp add: round_double_def Let_def bit_length_example bit_length.simps)

lemma dmul_default:
  "dmul (Finite True 1 0) (Finite False 4792961375859309 (- 59)) = Finite True 4792961375859309 (- 59)"
  by (simp add: round_double_def Let_def bit_length_example)

section \<open>The mass overrides\<close>

text \<open>
  C3, as the specification states it: with a mass-override array whose length is neither
  0 nor the particle count, \<^verbatim>\<open>initialize\<close> fails and no \<^verbatim>\<open>readInputLines\<close> or
  \<^verbatim>\<open>readInputLine\<close> is issued before the failure. On the code the masses are looked at
  (lines 128 to 136) after the script has been handed over (lines 110 to 123): two
  particles, one override, API version 8, and the whole script has been submitted when
  the exception is thrown.
\<close>

theorem mass_mismatch_after_script_counterexample:
  "length (getMasses (example_force\<lparr>getMasses := [Finite False 5 0]\<rparr>)) \<noteq> 0 \<and>
   length (getMasses (example_force\<lparr>getMasses := [Finite False 5 0]\<rparr>))
     \<noteq> getNumParticles example_system \<and>
   fst (snd (initialize example_env example_system
               (example_force\<lparr>getMasses := [Finite False 5 0]\<rparr>)
               (ReferenceCalcPlumedForceKernel False))) =
     Inl (OpenMMException
            ''The number of PLUMED masses is different from the number of particles!'') \<and>
   filter is_script_call
     (fst (initialize example_env example_system
             (example_force\<lparr>getMasses := [Finite False 5 0]\<rparr>)
             (ReferenceCalcPlumedForceKernel False))) =
     [ReadInputLines (''d: DISTANCE ATOMS=1,2'' @ [CHR 0x0A] @ ''PRINT ARG=d'')]"
  by (simp add: initialize_calls initialize_result setup_calls_no_script
      parameter_calls_no_script script_calls_all_script script_calls_def c_str_def
      example_force_def example_env_def example_system_def getNumParticles_def)

text \<open>
  C3, amended: with a mass-override array whose length is neither 0 nor the particle
  count, \<^verbatim>\<open>initialize\<close> fails with a descriptive error. Below API version 4 it is the
  error of the version check, and no script call has been made. From version 4 on it is
  the error about the number of masses, and it is thrown after the script has been
  submitted: the script calls made are those of the script ingestion (one
  \<^verbatim>\<open>readInputLines\<close>, or one \<^verbatim>\<open>readInputLine\<close> per line).
\<close>

theorem mass_mismatch_fails:
  assumes "length (getMasses force) \<noteq> 0"
    and "length (getMasses force) \<noteq> getNumParticles system"
  shows "if apiVersion env < 4
         then fst (snd (initialize env system force k)) =
                Inl (OpenMMException
                       ''Unsupported API version.  Upgrade PLUMED to a newer version.'') \<and>
              filter is_script_call (fst (initialize env system force k)) = []
         else fst (snd (initialize env system force k)) =
                Inl (OpenMMException
                       ''The number of PLUMED masses is different from the number of particles!'') \<and>
              filter is_script_call (fst (initialize env system force k)) =
                script_calls env force"
proof (cases "apiVersion env < 4")
  case True
  then show ?thesis
    by (simp add: initialize_old_version setup_calls_no_script)
next
  case False
  then show ?thesis
    using assms
    by (simp add: initialize_calls initialize_result setup_calls_no_script
        parameter_calls_no_script script_calls_all_script)
qed

theorem mass_mismatch_fails_witness:
  "length (getMasses (example_force\<lparr>getMasses := [Finite False 5 0]\<rparr>)) \<noteq> 0 \<and>
   length (getMasses (example_force\<lparr>getMasses := [Finite False 5 0]\<rparr>))
     \<noteq> getNumParticles example_system \<and>
   fst (snd (initialize (example_env\<lparr>apiVersion := 5\<rparr>) example_system
               (example_force\<lparr>getMasses := [Finite False 5 0]\<rparr>)
               (ReferenceCalcPlumedForceKernel False))) =
     Inl (OpenMMException
            ''The number of PLUMED masses is different from the number of particles!'') \<and>
   filter is_script_call
     (fst (initialize (example_env\<lparr>apiVersion := 5\<rparr>) example_system
             (example_force\<lparr>getMasses := [Finite False 5 0]\<rparr>)
             (ReferenceCalcPlumedForceKernel False))) =
     [ReadInputLine ''d: DISTANCE ATOMS=1,2'', ReadInputLine ''PRINT ARG=d'']"
  using mass_mismatch_fails
    [of "example_force\<lparr>getMasses := [Finite False 5 0]\<rparr>" example_system
        "example_env\<lparr>apiVersion := 5\<rparr>" "ReferenceCalcPlumedForceKernel False"]
  by (simp add: script_calls_def c_str_def strtok_lines_split is_delim_def
      example_force_def example_env_def example_system_def getNumParticles_def)

text \<open>
  C4: when \<^verbatim>\<open>initialize\<close> gets past the version check, the effective masses are the
  masses of the system, element for element, if the descriptor has no overrides; they
  are the overrides, verbatim, if there are as many as particles; and with any other
  number of overrides \<^verbatim>\<open>initialize\<close> fails with the error about the number of masses.
\<close>

theorem effective_masses:
  assumes "4 \<le> apiVersion env"
  shows "(getMasses force = [] \<longrightarrow>
            masses (snd (snd (initialize env system force k))) = particleMasses system) \<and>
         (length (getMasses force) = getNumParticles system \<longrightarrow>
            masses (snd (snd (initialize env system force k))) = getMasses force) \<and>
         (getMasses force \<noteq> [] \<and> length (getMasses force) \<noteq> getNumParticles system \<longrightarrow>
            fst (snd (initialize env system force k)) =
              Inl (OpenMMException
                     ''The number of PLUMED masses is different from the number of particles!''))"
proof -
  have v: "\<not> apiVersion env < 4" using assms by simp
  show ?thesis
    using initialize_masses_system [OF v] initialize_masses_override [OF v]
      initialize_mass_mismatch [OF v]
    by simp
qed

theorem effective_masses_witness:
  "4 \<le> apiVersion example_env \<and>
   masses (snd (snd (initialize example_env example_system example_force
                       (ReferenceCalcPlumedForceKernel False)))) =
     [Finite False 1 0, Finite False 2 0] \<and>
   masses (snd (snd (initialize example_env example_system
                       (example_force\<lparr>getMasses := [Finite False 5 0, Finite False 6 0]\<rparr>)
                       (ReferenceCalcPlumedForceKernel False)))) =
     [Finite False 5 0, Finite False 6 0] \<and>
   fst (snd (initialize example_env example_system
               (example_force\<lparr>getMasses := [Finite False 5 0]\<rparr>)
               (ReferenceCalcPlumedForceKernel False))) =
     Inl (OpenMMException
            ''The number of PLUMED masses is different from the number of particles!'')"
  using effective_masses [of example_env example_force example_system
          "ReferenceCalcPlumedForceKernel False"]
    effective_masses [of example_env
          "example_force\<lparr>getMasses := [Finite False 5 0, Finite False 6 0]\<rparr>" example_system
          "ReferenceCalcPlumedForceKernel False"]
    effective_masses [of example_env
          "example_force\<lparr>getMasses := [Finite False 5 0]\<rparr>" example_system
          "ReferenceCalcPlumedForceKernel False"]
  by (simp add: example_force_def example_env_def example_system_def getNumParticles_def)

section \<open>The script\<close>

text \<open>
  C5, as the specification states it: the script goes to the interpreter as one
  \<^verbatim>\<open>readInputLines\<close> call with the whole script if and only if the API version is
  greater than 7; otherwise it is split at the newline and carriage-return characters
  and each line is submitted with a \<^verbatim>\<open>readInputLine\<close> call of its own. On the code
  this fails in three places. At version 7 the script of the three lines \<open>a\<close>, an empty
  line and \<open>b\<close> gives two calls, not three: \<^verbatim>\<open>strtok\<close> never returns an empty line.
  At version 3, which is not greater than 7 either, no line is submitted at all: the
  version check has thrown before. At version 8, of a script with a NUL character only
  the part in front of it is submitted, not the whole script.
\<close>

theorem script_lines_counterexample:
  "\<not> 7 < apiVersion (example_env\<lparr>apiVersion := 7\<rparr>) \<and>
   split_lines (''a'' @ [CHR 0x0A, CHR 0x0A] @ ''b'') = [''a'', [], ''b''] \<and>
   filter is_script_call
     (fst (initialize (example_env\<lparr>apiVersion := 7\<rparr>) example_system
             (example_force\<lparr>getScript := ''a'' @ [CHR 0x0A, CHR 0x0A] @ ''b''\<rparr>)
             (ReferenceCalcPlumedForceKernel False))) =
     [ReadInputLine ''a'', ReadInputLine ''b''] \<and>
   filter is_script_call
     (fst (initialize (example_env\<lparr>apiVersion := 7\<rparr>) example_system
             (example_force\<lparr>getScript := ''a'' @ [CHR 0x0A, CHR 0x0A] @ ''b''\<rparr>)
             (ReferenceCalcPlumedForceKernel False))) \<noteq>
     map ReadInputLine (split_lines (''a'' @ [CHR 0x0A, CHR 0x0A] @ ''b'')) \<and>
   \<not> 7 < apiVersion (example_env\<lparr>apiVersion := 3\<rparr>) \<and>
   split_lines (getScript example_force) = [''d: DISTANCE ATOMS=1,2'', ''PRINT ARG=d''] \<and>
   filter is_script_call
     (fst (initialize (example_env\<lparr>apiVersion := 3\<rparr>) example_system example_force
             (ReferenceCalcPlumedForceKernel False))) = [] \<and>
   7 < apiVersion example_env \<and>
   filter is_script_call
     (fst (initialize example_env example_system
             (example_force\<lparr>getScript := ''a'' @ [CHR 0x00] @ ''b''\<rparr>)
             (ReferenceCalcPlumedForceKernel False))) =
     [ReadInputLines ''a'']"
  by (simp add: initialize_calls initialize_old_version setup_calls_no_script
      parameter_calls_no_script script_calls_all_script script_calls_def c_str_def
      strtok_lines_split is_delim_def example_force_def example_env_def)

text \<open>
  C5, amended: the script text handed over is what \<^verbatim>\<open>c_str()\<close> gives, the script up to
  its first NUL character (the whole script when it has none). Below API version 4
  \<^verbatim>\<open>initialize\<close> makes no script call. Above version 7 it submits the text as one
  \<^verbatim>\<open>readInputLines\<close> call. From version 4 to 7 it cuts the text at the newline and
  carriage-return characters and submits every non-empty piece with a
  \<^verbatim>\<open>readInputLine\<close> call of its own, in order; an empty piece (a blank line, the gap
  in a CR LF pair, a delimiter at either end) is not submitted. No other script call is
  made.
\<close>

theorem script_submission:
  "filter is_script_call (fst (initialize env system force k)) =
     (if apiVersion env < 4 then []
      else if 7 < apiVersion env then [ReadInputLines (c_str (getScript force))]
      else map ReadInputLine
             (filter (\<lambda>l. l \<noteq> []) (split_lines (c_str (getScript force)))))"
proof (cases "apiVersion env < 4")
  case True
  then show ?thesis
    by (simp add: initialize_old_version setup_calls_no_script)
next
  case False
  have "filter is_script_call (fst (initialize env system force k)) = script_calls env force"
    by (simp add: initialize_calls [OF False] setup_calls_no_script parameter_calls_no_script
        script_calls_all_script)
  then show ?thesis
    using False by (simp add: script_calls_def strtok_lines_split)
qed

theorem script_submission_witness:
  "filter is_script_call
     (fst (initialize example_env example_system example_force
             (ReferenceCalcPlumedForceKernel False))) =
     [ReadInputLines (''d: DISTANCE ATOMS=1,2'' @ [CHR 0x0A] @ ''PRINT ARG=d'')] \<and>
   filter is_script_call
     (fst (initialize (example_env\<lparr>apiVersion := 7\<rparr>) example_system
             (example_force\<lparr>getScript :=
                ''d: DISTANCE ATOMS=1,2'' @ [CHR 0x0D, CHR 0x0A, CHR 0x0A] @ ''PRINT ARG=d''
                @ [CHR 0x0A]\<rparr>)
             (ReferenceCalcPlumedForceKernel False))) =
     [ReadInputLine ''d: DISTANCE ATOMS=1,2'', ReadInputLine ''PRINT ARG=d''] \<and>
   filter is_script_call
     (fst (initialize (example_env\<lparr>apiVersion := 3\<rparr>) example_system example_force
             (ReferenceCalcPlumedForceKernel False))) = []"
  using script_submission [of example_env example_system example_force
          "ReferenceCalcPlumedForceKernel False"]
    script_submission [of "example_env\<lparr>apiVersion := 7\<rparr>" example_system
          "example_force\<lparr>getScript :=
                ''d: DISTANCE ATOMS=1,2'' @ [CHR 0x0D, CHR 0x0A, CHR 0x0A] @ ''PRINT ARG=d''
                @ [CHR 0x0A]\<rparr>"
          "ReferenceCalcPlumedForceKernel False"]
    script_submission [of "example_env\<lparr>apiVersion := 3\<rparr>" example_system example_force
          "ReferenceCalcPlumedForceKernel False"]
  by (simp add: example_force_def example_env_def is_delim_def c_str_def)

section \<open>The version check\<close>

text \<open>
  C6: \<^verbatim>\<open>initialize\<close> throws the error of the version check if and only if the API
  version PLUMED reports is less than 4; from version 4 on, whatever else happens,
  \<^verbatim>\<open>initialize\<close> does not fail with that error.
\<close>

theorem version_check:
  "fst (snd (initialize env system force k)) =
     Inl (OpenMMException ''Unsupported API version.  Upgrade PLUMED to a newer version.'')
   \<longleftrightarrow> apiVersion env < 4"
proof (cases "apiVersion env < 4")
  case True
  then show ?thesis by (simp add: initialize_old_version)
next
  case False
  then show ?thesis using initialize_outcome [OF False] by simp
qed

theorem version_check_witness:
  "fst (snd (initialize (example_env\<lparr>apiVersion := 3\<rparr>) example_system example_force
               (ReferenceCalcPlumedForceKernel False))) =
     Inl (OpenMMException ''Unsupported API version.  Upgrade PLUMED to a newer version.'') \<and>
   fst (snd (initialize (example_env\<lparr>apiVersion := 4\<rparr>) example_system example_force
               (ReferenceCalcPlumedForceKernel False))) \<noteq>
     Inl (OpenMMException ''Unsupported API version.  Upgrade PLUMED to a newer version.'')"
  using version_check [of "example_env\<lparr>apiVersion := 3\<rparr>" example_system example_force
          "ReferenceCalcPlumedForceKernel False"]
    version_check [of "example_env\<lparr>apiVersion := 4\<rparr>" example_system example_force
          "ReferenceCalcPlumedForceKernel False"]
  by simp

section \<open>Charges and box vectors pushed by execute\<close>

text \<open>
  C7: for a system without a nonbonded force, the charge cache of a kernel that was
  constructed and initialised is empty, and no run of \<^verbatim>\<open>execute\<close> on it issues a
  \<^verbatim>\<open>setCharges\<close>.
\<close>

theorem no_charges_without_nonbonded:
  assumes "\<forall>f \<in> set (getForces system). \<not> is_NonbondedForce f"
  shows "charges (snd (snd (initialize env system force (ReferenceCalcPlumedForceKernel u)))) = [] \<and>
         filter is_setCharges (concat (fst (execute_all
            (snd (snd (initialize env system force (ReferenceCalcPlumedForceKernel u))))
            contexts))) = []"
proof -
  have "charges (snd (snd (initialize env system force (ReferenceCalcPlumedForceKernel u)))) = []"
    using initialize_charges_no_nonbonded [OF assms]
    by (simp add: ReferenceCalcPlumedForceKernel_def)
  then show ?thesis
    by (simp add: execute_all_setCharges)
qed

theorem no_charges_without_nonbonded_witness:
  "list_all (\<lambda>f. \<not> is_NonbondedForce f) (getForces example_system) \<and>
   charges (snd (snd (initialize example_env example_system example_force
                        (ReferenceCalcPlumedForceKernel False)))) = [] \<and>
   filter is_setCharges (concat (fst (execute_all
      (snd (snd (initialize example_env example_system example_force
                   (ReferenceCalcPlumedForceKernel False))))
      [example_context 0, example_context 1]))) = []"
  using no_charges_without_nonbonded [of example_system example_env example_force False
          "[example_context 0, example_context 1]"]
  by (simp add: example_system_def)

text \<open>
  C8: after an \<^verbatim>\<open>initialize\<close> that got past the version check (so that
  \<^verbatim>\<open>usesPeriodic\<close> was assigned), every call of \<^verbatim>\<open>execute\<close> issues exactly one
  \<^verbatim>\<open>setBox\<close> if the system uses periodic boundary conditions, and none if it does
  not.
\<close>

theorem setBox_iff_periodic:
  assumes "4 \<le> apiVersion env"
  shows "map (\<lambda>c. length (filter is_setBox c))
           (fst (execute_all (snd (snd (initialize env system force k))) contexts)) =
         replicate (length contexts)
           (if System_usesPeriodicBoundaryConditions system then 1 else 0)"
proof -
  have v: "\<not> apiVersion env < 4" using assms by simp
  show ?thesis
    by (simp add: execute_all_setBox initialize_usesPeriodic [OF v])
qed

theorem setBox_iff_periodic_witness:
  "4 \<le> apiVersion example_env \<and>
   map (\<lambda>c. length (filter is_setBox c))
     (fst (execute_all
        (snd (snd (initialize example_env example_periodic_system example_force
                     (ReferenceCalcPlumedForceKernel False))))
        [example_context 0, example_context 1])) = [1, 1] \<and>
   map (\<lambda>c. length (filter is_setBox c))
     (fst (execute_all
        (snd (snd (initialize example_env example_system example_force
                     (ReferenceCalcPlumedForceKernel True))))
        [example_context 0, example_context 1])) = [0, 0]"
  using setBox_iff_periodic [of example_env example_periodic_system example_force
          "ReferenceCalcPlumedForceKernel False" "[example_context 0, example_context 1]"]
    setBox_iff_periodic [of example_env example_system example_force
          "ReferenceCalcPlumedForceKernel True" "[example_context 0, example_context 1]"]
  by (simp add: example_env_def example_system_def example_periodic_system_def)

section \<open>The thermal energy\<close>

text \<open>
  C9: \<^verbatim>\<open>setKbT\<close> is to be pushed if and only if the temperature is not negative. The
  guard of line 105 tests the product \<^verbatim>\<open>kT\<close>, not the temperature. For the negative
  temperature of least magnitude, \<open>-2^-1074\<close>, the product with \<^verbatim>\<open>BOLTZ\<close> underflows to
  the negative zero, which passes \<^verbatim>\<open>kT >= 0.0\<close>: \<^verbatim>\<open>setKbT\<close> is pushed.
\<close>

theorem setKbT_for_negative_temperature:
  "lt_zero (getTemperature (example_force\<lparr>getTemperature := Finite True 1 (- 1074)\<rparr>)) \<and>
   filter is_setKbT
     (fst (initialize example_env example_system
             (example_force\<lparr>getTemperature := Finite True 1 (- 1074)\<rparr>)
             (ReferenceCalcPlumedForceKernel False))) =
     [SetKbT (Finite True 0 (- 1074))]"
  using dmul_underflow
  by (simp add: initialize_setKbT example_env_def example_force_def del: dmul.simps)

text \<open>
  What the guard does on the other temperatures, for a positive finite \<^verbatim>\<open>BOLTZ\<close> and an
  accepted API version: a temperature that is not negative is pushed, a NaN is not, and
  a negative one is pushed only in the underflow case above. The default temperature
  -1.0 is not pushed.
\<close>

lemma setKbT_pushed_when_not_negative:
  assumes "4 \<le> apiVersion env" and "BOLTZ env = Finite False n f" and "0 < n"
    and "ge_zero (getTemperature force)"
  shows "filter is_setKbT (fst (initialize env system force k)) =
           [SetKbT (dmul (getTemperature force) (BOLTZ env))]"
proof -
  have v: "\<not> apiVersion env < 4" using assms(1) by simp
  have "ge_zero (dmul (getTemperature force) (BOLTZ env))"
    using ge_zero_dmul [OF assms(4) assms(3)] assms(2) by simp
  then show ?thesis by (simp add: initialize_setKbT [OF v])
qed

lemma setKbT_when_negative:
  assumes "4 \<le> apiVersion env" and "BOLTZ env = Finite False n f" and "0 < n"
    and "lt_zero (getTemperature force)"
  shows "filter is_setKbT (fst (initialize env system force k)) \<noteq> [] \<longleftrightarrow>
           (\<exists>e. dmul (getTemperature force) (BOLTZ env) = Finite True 0 e)"
proof -
  have v: "\<not> apiVersion env < 4" using assms(1) by simp
  show ?thesis
    using lt_zero_dmul [OF assms(4) assms(3), of f] assms(2)
    by (simp add: initialize_setKbT [OF v])
qed

lemma setKbT_not_pushed_for_NaN:
  assumes "4 \<le> apiVersion env" and "getTemperature force = NaN"
  shows "filter is_setKbT (fst (initialize env system force k)) = []"
proof -
  have v: "\<not> apiVersion env < 4" using assms(1) by simp
  show ?thesis by (simp add: initialize_setKbT [OF v] assms(2))
qed

lemma setKbT_not_pushed_by_default:
  "filter is_setKbT
     (fst (initialize example_env example_system example_force
             (ReferenceCalcPlumedForceKernel False))) = []"
  using dmul_default
  by (simp add: initialize_setKbT example_env_def example_force_def del: dmul.simps)

end
